theory Spec2Isabelle
  imports Main "HOL-Library.Word"
begin

unbundle bit_operations_syntax

section \<open>The DHCP capture program (xdp.c)\<close>

text \<open>
  The program is attached to the ingress path of an interface.  For each frame it reserves
  a slot of the ring buffer \<open>dhcp_queue\<close>, parses the frame into the slot, and either
  submits the slot and drops the frame or discards the slot and passes the frame on.

  The object code is little-endian eBPF: a multi-byte header field is loaded
  least-significant byte first, and \<open>bpf_htons\<close> swaps the two bytes of its argument.
\<close>

type_synonym u8 = "8 word"
type_synonym u16 = "16 word"
type_synonym u32 = "32 word"

subsection \<open>Constants\<close>

definition UDP_PROTO :: u8 where "UDP_PROTO = 0x11"
definition ETH_PROTO_IP :: u16 where "ETH_PROTO_IP = 0x0800"
definition ETH_PROTO_IPV6 :: u16 where "ETH_PROTO_IPV6 = 0x86DD"
definition DHCP_PORT :: u16 where "DHCP_PORT = 67"
definition MAX_PKT_BYTES :: nat where "MAX_PKT_BYTES = 16384"
definition MAX_DHCP_PKT_SIZE :: nat where "MAX_DHCP_PKT_SIZE = 1984"

subsection \<open>Loads, stores and byte order\<close>

definition le16 :: "u8 \<Rightarrow> u8 \<Rightarrow> u16" where
  \<comment> \<open>a 16-bit load of two consecutive bytes\<close>
  "le16 b0 b1 = ucast b0 OR push_bit 8 (ucast b1)"

definition le32 :: "u8 \<Rightarrow> u8 \<Rightarrow> u8 \<Rightarrow> u8 \<Rightarrow> u32" where
  \<comment> \<open>a 32-bit load of four consecutive bytes\<close>
  "le32 b0 b1 b2 b3 =
     ucast b0 OR push_bit 8 (ucast b1) OR push_bit 16 (ucast b2) OR push_bit 24 (ucast b3)"


definition bytes32 :: "u32 \<Rightarrow> u8 list" where
  \<comment> \<open>the four bytes a 32-bit store writes\<close>
  "bytes32 w = [ucast w, ucast (drop_bit 8 w), ucast (drop_bit 16 w), ucast (drop_bit 24 w)]"

definition bpf_htons :: "u16 \<Rightarrow> u16" where
  "bpf_htons x = push_bit 8 x OR drop_bit 8 x"

definition net16 :: "u8 \<Rightarrow> u8 \<Rightarrow> u16" where
  \<comment> \<open>the number that two bytes in network order (most significant first) stand for\<close>
  "net16 b0 b1 = push_bit 8 (ucast b0) OR ucast b1"

subsection \<open>Packet headers\<close>

text \<open>
  Modelled from the spec: the declarations of \<open>struct ethhdr\<close>, \<open>struct iphdr\<close>,
  \<open>struct ipv6hdr\<close>, \<open>struct udphdr\<close> and \<open>struct xdp_md\<close> come from \<open>vmlinux.h\<close>, which is
  not among the sources.  The spec names the headers (link-layer header with an ethertype,
  fixed-size IPv4 header, IPv6 header, UDP header); sizes and field offsets are those of the
  Linux declarations: \<open>ethhdr\<close> is 14 bytes (\<open>h_source\<close> at 6, \<open>h_proto\<close> at 12), \<open>iphdr\<close> is
  20 bytes (\<open>protocol\<close> at 9, \<open>saddr\<close> at 12), \<open>ipv6hdr\<close> is 40 bytes (\<open>nexthdr\<close> at 6,
  \<open>saddr\<close> at 8), \<open>udphdr\<close> is 8 bytes (\<open>source\<close> at 0, \<open>dest\<close> at 2, \<open>len\<close> at 4).
\<close>

definition sizeof_ethhdr :: nat where "sizeof_ethhdr = 14"
definition sizeof_iphdr :: nat where "sizeof_iphdr = 20"
definition sizeof_ipv6hdr :: nat where "sizeof_ipv6hdr = 40"
definition sizeof_udphdr :: nat where "sizeof_udphdr = 8"

definition h_source :: "u8 list \<Rightarrow> nat \<Rightarrow> nat \<Rightarrow> u8" where
  "h_source f eth k = f ! (eth + 6 + k)"

definition h_proto :: "u8 list \<Rightarrow> nat \<Rightarrow> u16" where
  "h_proto f eth = le16 (f ! (eth + 12)) (f ! (eth + 13))"

definition ip_protocol :: "u8 list \<Rightarrow> nat \<Rightarrow> u8" where
  "ip_protocol f ip = f ! (ip + 9)"

definition ip_saddr :: "u8 list \<Rightarrow> nat \<Rightarrow> u32" where
  "ip_saddr f ip = le32 (f ! (ip + 12)) (f ! (ip + 13)) (f ! (ip + 14)) (f ! (ip + 15))"

definition ip6_nexthdr :: "u8 list \<Rightarrow> nat \<Rightarrow> u8" where
  "ip6_nexthdr f ip6 = f ! (ip6 + 6)"

definition ip6_saddr :: "u8 list \<Rightarrow> nat \<Rightarrow> u8 list" where
  "ip6_saddr f ip6 = take 16 (drop (ip6 + 8) f)"

definition udp_source :: "u8 list \<Rightarrow> nat \<Rightarrow> u16" where
  "udp_source f udp = le16 (f ! udp) (f ! (udp + 1))"

definition udp_dest :: "u8 list \<Rightarrow> nat \<Rightarrow> u16" where
  "udp_dest f udp = le16 (f ! (udp + 2)) (f ! (udp + 3))"

text \<open>
  \<open>struct xdp_md\<close>: \<open>frame\<close> holds the bytes from \<open>ctx->data\<close> up to \<open>ctx->data_end\<close>, so a
  pointer \<open>data + n\<close> is the offset \<open>n\<close> and \<open>data + n > data_end\<close> is \<open>n > length frame\<close>.
\<close>

record xdp_md =
  frame :: "u8 list"
  ingress_ifindex :: u32

text \<open>\<open>enum xdp_action\<close>, in the order of the Linux declaration.\<close>

datatype xdp_action = XDP_ABORTED | XDP_DROP | XDP_PASS | XDP_TX | XDP_REDIRECT

subsection \<open>The captured record\<close>

text \<open>
  \<open>struct dhcp_data\<close>.  The arrays \<open>src_mac\<close> and \<open>dhcp_pkt\<close> and the 16 bytes of
  \<open>struct in6_addr\<close> are byte lists; in C their lengths are fixed (6, 1984 and 16), which
  \<open>wf_dhcp_data\<close> states.
\<close>

record dhcp_data =
  iface_idx :: u32
  src_mac :: "u8 list"
  src_port :: u16
  src_ip4 :: u32
  src_ip6 :: "u8 list"
  dhcp_pkt :: "u8 list"

definition wf_dhcp_data :: "dhcp_data \<Rightarrow> bool" where
  "wf_dhcp_data d \<longleftrightarrow>
     length (src_mac d) = 6 \<and> length (src_ip6 d) = 16 \<and> length (dhcp_pkt d) = MAX_DHCP_PKT_SIZE"

definition sizeof_dhcp_data :: nat where
  "sizeof_dhcp_data = 4 + 6 + 2 + 4 + 16 + MAX_DHCP_PKT_SIZE"


subsection \<open>parse_dhcp_pkt\<close>

text \<open>
  The copy loop \<open>for (int i = 0; dhcp_pkt + i < payload_end; i++)\<close>, the same text in both
  branches.  \<open>pkt\<close> is the offset of the pointer \<open>dhcp_pkt\<close>.  The result is the value the
  loop makes \<open>parse_dhcp_pkt\<close> return (0 from the \<open>return 0\<close> inside the body, 1 from the
  \<open>return 1\<close> after the loop), the record as the loop leaves it, and the number of times the
  loop body was entered.
\<close>

function copy_loop :: "u8 list \<Rightarrow> nat \<Rightarrow> nat \<Rightarrow> dhcp_data \<Rightarrow> int \<times> dhcp_data \<times> nat" where
  "copy_loop f pkt i d =
     (if pkt + i < length f then
        (if MAX_DHCP_PKT_SIZE \<le> i then (0, d, 1)
         else (case copy_loop f pkt (i + 1) (d\<lparr>dhcp_pkt := (dhcp_pkt d)[i := f ! (pkt + i)]\<rparr>) of
                 (r, d', n) \<Rightarrow> (r, d', n + 1)))
      else (1, d, 0))"
  by pat_completeness auto
termination
  by (relation "measure (\<lambda>(f, pkt, i, d). length f - (pkt + i))") auto

declare copy_loop.simps [simp del]

definition parse_dhcp_pkt :: "xdp_md \<Rightarrow> dhcp_data \<Rightarrow> int \<times> dhcp_data" where
  "parse_dhcp_pkt ctx data0 =
    (let f = frame ctx;
         data = data0\<lparr>iface_idx := ingress_ifindex ctx\<rparr>;
         eth = 0
     in if eth + sizeof_ethhdr > length f then (0, data)
        else if h_proto f eth = bpf_htons ETH_PROTO_IP then
          (let ip = eth + sizeof_ethhdr
           in if ip + sizeof_iphdr > length f then (0, data)
              else if ip_protocol f ip \<noteq> UDP_PROTO then (0, data)
              else
                (let udp = ip + sizeof_iphdr
                 in if udp + sizeof_udphdr > length f then (0, data)
                    else if udp_dest f udp \<noteq> bpf_htons DHCP_PORT then (0, data)
                    else
                      (let pkt = udp + sizeof_udphdr
                       in if pkt + 1 > length f then (0, data)
                          else
                            (let data = data\<lparr>src_mac := (src_mac data)
                                   [0 := h_source f eth 0, 1 := h_source f eth 1,
                                    2 := h_source f eth 2, 3 := h_source f eth 3,
                                    4 := h_source f eth 4, 5 := h_source f eth 5]\<rparr>;
                                 data = data\<lparr>src_ip4 := ip_saddr f ip\<rparr>;
                                 data = data\<lparr>src_port := bpf_htons (udp_source f udp)\<rparr>
                             in case copy_loop f pkt 0 data of (r, data, n) \<Rightarrow> (r, data)))))
        else if h_proto f eth = bpf_htons ETH_PROTO_IPV6 then
          (let ip6 = eth + sizeof_ethhdr
           in if ip6 + sizeof_ipv6hdr > length f then (0, data)
              else if ip6_nexthdr f ip6 \<noteq> UDP_PROTO then (0, data)
              else
                (let udp = ip6 + sizeof_ipv6hdr
                 in if udp + sizeof_udphdr > length f then (0, data)
                    else if udp_dest f udp \<noteq> bpf_htons DHCP_PORT then (0, data)
                    else
                      (let pkt = udp + sizeof_udphdr
                       in if pkt + 1 > length f then (0, data)
                          else
                            (let data = data\<lparr>src_mac := (src_mac data)
                                   [0 := h_source f eth 0, 1 := h_source f eth 1,
                                    2 := h_source f eth 2, 3 := h_source f eth 3,
                                    4 := h_source f eth 4, 5 := h_source f eth 5]\<rparr>;
                                 data = data\<lparr>src_ip6 := ip6_saddr f ip6\<rparr>;
                                 data = data\<lparr>src_port := bpf_htons (udp_source f udp)\<rparr>
                             in case copy_loop f pkt 0 data of (r, data, n) \<Rightarrow> (r, data)))))
        else (0, data))"

subsection \<open>The ring buffer\<close>

text \<open>
  Modelled from the spec: \<open>bpf_ringbuf_reserve\<close>, \<open>bpf_ringbuf_submit\<close> and
  \<open>bpf_ringbuf_discard\<close> are helpers of the host, not among the sources.  The spec gives
  their contract (section 4.2): reserve obtains a slot of the requested size without blocking
  and fails when the capacity does not suffice; discard releases a reserved slot without
  making it visible; commit publishes the slot to the consumer in FIFO order.

  \<open>rb_used\<close> counts the bytes of reserved and of committed, unread slots; \<open>rb_pending\<close> holds
  the sizes of the slots reserved and not yet released; \<open>rb_committed\<close> is what the consumer
  sees, oldest first; \<open>rb_trace\<close> lists the helper calls made so far.

  A reservation returns a pointer to memory of the buffer.  Nothing in the contract says what
  that memory holds, and the program does not clear it, so its contents at reservation time
  are an argument (\<open>mem\<close>).
\<close>

datatype rb_event = Reserved | ReserveFailed | Submitted | Discarded

record ringbuf =
  rb_capacity :: nat
  rb_used :: nat
  rb_pending :: "nat list"
  rb_committed :: "dhcp_data list"
  rb_trace :: "rb_event list"

definition bpf_ringbuf_reserve :: "ringbuf \<Rightarrow> nat \<Rightarrow> dhcp_data \<Rightarrow> dhcp_data option \<times> ringbuf" where
  "bpf_ringbuf_reserve q sz mem =
     (if rb_used q + sz \<le> rb_capacity q
      then (Some mem, q\<lparr>rb_used := rb_used q + sz, rb_pending := sz # rb_pending q,
                        rb_trace := rb_trace q @ [Reserved]\<rparr>)
      else (None, q\<lparr>rb_trace := rb_trace q @ [ReserveFailed]\<rparr>))"

definition bpf_ringbuf_discard :: "ringbuf \<Rightarrow> ringbuf" where
  "bpf_ringbuf_discard q =
     (case rb_pending q of
        [] \<Rightarrow> q\<lparr>rb_trace := rb_trace q @ [Discarded]\<rparr>
      | sz # ps \<Rightarrow> q\<lparr>rb_used := rb_used q - sz, rb_pending := ps,
                        rb_trace := rb_trace q @ [Discarded]\<rparr>)"

definition bpf_ringbuf_submit :: "ringbuf \<Rightarrow> dhcp_data \<Rightarrow> ringbuf" where
  "bpf_ringbuf_submit q data =
     (case rb_pending q of
        [] \<Rightarrow> q\<lparr>rb_trace := rb_trace q @ [Submitted]\<rparr>
      | sz # ps \<Rightarrow> q\<lparr>rb_pending := ps, rb_committed := rb_committed q @ [data],
                        rb_trace := rb_trace q @ [Submitted]\<rparr>)"

subsection \<open>xdp_prog_func\<close>

text \<open>
  The handler.  \<open>q\<close> is the state of \<open>dhcp_queue\<close> when the frame arrives and \<open>mem\<close> the
  contents of the memory a successful reservation hands out; the result is the verdict and
  the state of the queue when the handler returns.
\<close>

definition xdp_prog_func :: "xdp_md \<Rightarrow> dhcp_data \<Rightarrow> ringbuf \<Rightarrow> xdp_action \<times> ringbuf" where
  "xdp_prog_func ctx mem q =
     (case bpf_ringbuf_reserve q sizeof_dhcp_data mem of
        (None, q1) \<Rightarrow> (XDP_PASS, q1)
      | (Some data, q1) \<Rightarrow>
          (case parse_dhcp_pkt ctx data of
             (r, data') \<Rightarrow>
               if r = 0 then (XDP_PASS, bpf_ringbuf_discard q1)
               else (XDP_DROP, bpf_ringbuf_submit q1 data')))"

section \<open>The privilege-dropping shim (stub_initgroups.c)\<close>

text \<open>
  The shim overrides \<open>setgroups\<close> and \<open>initgroups\<close>.  \<open>orig_setgroups\<close> is the function that
  \<open>dlsym(RTLD_NEXT, "setgroups")\<close> resolves to, an argument here; it acts on the state of the
  process (\<open>'s\<close>) and returns an \<open>int\<close>.  A \<open>NULL\<close> list is \<open>None\<close>.
\<close>

type_synonym size_t = "64 word"
type_synonym gid_t = u32
type_synonym 's orig_setgroups_f_type = "size_t \<Rightarrow> gid_t list option \<Rightarrow> 's \<Rightarrow> int \<times> 's"

definition setgroups ::
  "'s orig_setgroups_f_type \<Rightarrow> size_t \<Rightarrow> gid_t list option \<Rightarrow> 's \<Rightarrow> int \<times> 's" where
  "setgroups orig_setgroups sz lst = orig_setgroups 0 None"

definition initgroups ::
  "'s orig_setgroups_f_type \<Rightarrow> string \<Rightarrow> gid_t \<Rightarrow> 's \<Rightarrow> int \<times> 's" where
  "initgroups orig_setgroups user grp = setgroups orig_setgroups 0 None"

section \<open>What the specification talks about\<close>

text \<open>
  The frames of the specification, by the bytes of the wire format.  The ethertype is the
  16-bit number at bytes 12 and 13, most significant byte first.  A DHCP packet over IPv4
  whose IPv4 header has 20 bytes (no options) is an Ethernet header with ethertype
  \<open>0x0800\<close>, the IPv4 header with protocol byte 17 (UDP), a UDP header whose destination
  port is 67, and at least one byte of payload; over IPv6 the ethertype is \<open>0x86DD\<close>, the
  header has 40 bytes and the next-header byte is 17.  \<open>dhcp4_frame\<close> and \<open>dhcp6_frame\<close> state
  this by the bytes at these fixed offsets.
\<close>

definition ethertype :: "u8 list \<Rightarrow> u16" where
  "ethertype f = net16 (f ! 12) (f ! 13)"

definition dhcp4_frame :: "u8 list \<Rightarrow> bool" where
  "dhcp4_frame f \<longleftrightarrow>
     14 + 20 + 8 < length f \<and> ethertype f = 0x0800 \<and> f ! (14 + 9) = 17
       \<and> net16 (f ! (14 + 20 + 2)) (f ! (14 + 20 + 3)) = 67"

definition dhcp6_frame :: "u8 list \<Rightarrow> bool" where
  "dhcp6_frame f \<longleftrightarrow>
     14 + 40 + 8 < length f \<and> ethertype f = 0x86DD \<and> f ! (14 + 6) = 17
       \<and> net16 (f ! (14 + 40 + 2)) (f ! (14 + 40 + 3)) = 67"

definition dhcp_pkt_offset :: "u8 list \<Rightarrow> nat" where
  \<comment> \<open>the offset at which \<open>parse_dhcp_pkt\<close> places its pointer \<open>dhcp_pkt\<close>: the sizes of
      \<open>ethhdr\<close>, \<open>iphdr\<close> or \<open>ipv6hdr\<close>, and \<open>udphdr\<close> added up\<close>
  "dhcp_pkt_offset f = (if ethertype f = 0x0800 then 14 + 20 + 8 else 14 + 40 + 8)"

definition capturable :: "u8 list \<Rightarrow> bool" where
  \<comment> \<open>the bytes at the fixed offsets are those of a DHCP packet, and what follows
      \<open>dhcp_pkt_offset\<close> fits the record\<close>
  "capturable f \<longleftrightarrow>
     (dhcp4_frame f \<or> dhcp6_frame f) \<and> length f \<le> dhcp_pkt_offset f + MAX_DHCP_PKT_SIZE"

definition has_room :: "ringbuf \<Rightarrow> bool" where
  \<comment> \<open>the queue can hold one more record\<close>
  "has_room q \<longleftrightarrow> rb_used q + sizeof_dhcp_data \<le> rb_capacity q"

text \<open>
  Where the headers of a frame really are.  The length of an IPv4 header is its IHL field
  (the low four bits of its first byte) in 32-bit words: 20 bytes without options, up to 60
  with them.  The UDP header follows the IPv4 header, or the 40-byte IPv6 header (an IPv6
  frame with extension headers has another next-header byte than 17 at offset 20, and is
  not a UDP frame for \<open>wrong_protocol\<close> below).
\<close>

definition ihl :: "u8 list \<Rightarrow> nat" where
  "ihl f = unat (f ! 14 AND 0x0F)"

definition udp_hdr_start :: "u8 list \<Rightarrow> nat" where
  "udp_hdr_start f = (if ethertype f = 0x0800 then 14 + 4 * ihl f else 14 + 40)"

definition udp_hdr_end :: "u8 list \<Rightarrow> nat" where
  \<comment> \<open>the offset of the first byte after the UDP header\<close>
  "udp_hdr_end f = udp_hdr_start f + 8"

text \<open>
  The failure modes of the specification, for an IPv4 or IPv6 frame: a header that crosses
  the end of the frame, a transport protocol other than UDP, a destination port (bytes 2 and 3
  of the UDP header) other than 67, a UDP payload longer than the record can hold.  (The
  fifth, queue exhaustion, is \<open>\<not> has_room q\<close>.)
\<close>

definition truncated :: "u8 list \<Rightarrow> bool" where
  "truncated f \<longleftrightarrow>
     length f < 14
       \<or> ((ethertype f = 0x0800 \<or> ethertype f = 0x86DD) \<and> length f < udp_hdr_end f)"

definition wrong_protocol :: "u8 list \<Rightarrow> bool" where
  "wrong_protocol f \<longleftrightarrow>
     (ethertype f = 0x0800 \<and> f ! (14 + 9) \<noteq> 17) \<or> (ethertype f = 0x86DD \<and> f ! (14 + 6) \<noteq> 17)"

definition wrong_port :: "u8 list \<Rightarrow> bool" where
  "wrong_port f \<longleftrightarrow>
     (ethertype f = 0x0800 \<or> ethertype f = 0x86DD)
       \<and> net16 (f ! (udp_hdr_start f + 2)) (f ! (udp_hdr_start f + 3)) \<noteq> 67"

definition oversized :: "u8 list \<Rightarrow> bool" where
  "oversized f \<longleftrightarrow>
     (ethertype f = 0x0800 \<or> ethertype f = 0x86DD) \<and> udp_hdr_end f + MAX_DHCP_PKT_SIZE < length f"


section \<open>Concrete inputs\<close>

definition eth_hdr :: "u8 \<Rightarrow> u8 \<Rightarrow> u8 list" where
  \<comment> \<open>broadcast destination, source 02:00:00:00:00:01, the two ethertype bytes\<close>
  "eth_hdr t0 t1 = [0xFF, 0xFF, 0xFF, 0xFF, 0xFF, 0xFF, 2, 0, 0, 0, 0, 1, t0, t1]"

definition arp_frame :: "u8 list" where
  "arp_frame = eth_hdr 0x08 0x06 @ replicate 28 0"

definition mk_dhcp4 :: "u8 list \<Rightarrow> u8 list" where
  \<comment> \<open>IPv4 from 10.0.0.9 to 255.255.255.255, UDP from port 68 to port 67\<close>
  "mk_dhcp4 payload =
     eth_hdr 0x08 0x00
     @ [0x45, 0, 0, 0, 0, 0, 0, 0, 64, 17, 0, 0, 10, 0, 0, 9, 255, 255, 255, 255]
     @ [0, 68, 0, 67, 0, 0, 0, 0]
     @ payload"

definition mk_dhcp4_opts :: "u8 list \<Rightarrow> u8 list" where
  \<comment> \<open>the same packet with a 24-byte IPv4 header (IHL 6): three no-operation options and
      an end-of-options byte\<close>
  "mk_dhcp4_opts payload =
     eth_hdr 0x08 0x00
     @ [0x46, 0, 0, 0, 0, 0, 0, 0, 64, 17, 0, 0, 10, 0, 0, 9, 255, 255, 255, 255, 1, 1, 1, 0]
     @ [0, 68, 0, 67, 0, 0, 0, 0]
     @ payload"

definition mk_ip4 :: "u8 \<Rightarrow> u8 list \<Rightarrow> u8 list \<Rightarrow> u8 list" where
  \<comment> \<open>an IPv4 frame from 10.0.0.9 to 255.255.255.255 with protocol UDP: the first byte of
      the IPv4 header (version and IHL), the bytes after its first 20, and the rest\<close>
  "mk_ip4 vihl opts rest =
     eth_hdr 0x08 0x00
     @ [vihl, 0, 0, 0, 0, 0, 0, 0, 64, 17, 0, 0, 10, 0, 0, 9, 255, 255, 255, 255]
     @ opts @ rest"

definition opts_dhcp :: "u8 list" where
  \<comment> \<open>a DHCP packet whose IPv4 header has 24 bytes (IHL 6, and one option
      94 04 00 43: router alert, length 4, value 67): UDP from
      port 68 to port 67 at offset 38, payload 1, 2, 3 at offset 46\<close>
  "opts_dhcp = mk_ip4 0x46 [0x94, 4, 0, 67] ([0, 68, 0, 67, 0, 0, 0, 0] @ [1, 2, 3])"

definition opts_https :: "u8 list" where
  \<comment> \<open>the same IPv4 header before a UDP header from port 12345 to port 443\<close>
  "opts_https = mk_ip4 0x46 [0x94, 4, 0, 67] ([0x30, 0x39, 0x01, 0xBB, 0, 0, 0, 0] @ [1, 2, 3])"

definition short_ihl15 :: "u8 list" where
  \<comment> \<open>a frame of 50 bytes whose IPv4 header announces 60 bytes (IHL 15)\<close>
  "short_ihl15 = mk_ip4 0x4F [0x94, 4, 0, 67] (replicate 12 0)"

definition mk_dhcp6 :: "u8 list \<Rightarrow> u8 list" where
  \<comment> \<open>IPv6 from fe80::1 to ff02::1:2, UDP from port 68 to port 67\<close>
  "mk_dhcp6 payload =
     eth_hdr 0x86 0xDD
     @ [0x60, 0, 0, 0, 0, 0, 17, 64]
     @ [0xFE, 0x80, 0, 0, 0, 0, 0, 0, 0, 0, 0, 0, 0, 0, 0, 1]
     @ [0xFF, 0x02, 0, 0, 0, 0, 0, 0, 0, 0, 0, 0, 0, 1, 0, 2]
     @ [0, 68, 0, 67, 0, 0, 0, 0]
     @ payload"

definition zero_mem :: dhcp_data where
  "zero_mem = \<lparr>iface_idx = 0, src_mac = replicate 6 0, src_port = 0, src_ip4 = 0,
                src_ip6 = replicate 16 0, dhcp_pkt = replicate MAX_DHCP_PKT_SIZE 0\<rparr>"

definition stale_mem :: dhcp_data where
  \<comment> \<open>memory that still holds the addresses of an earlier record\<close>
  "stale_mem = zero_mem\<lparr>src_ip4 := 0x0900000A, src_ip6 := replicate 16 0xFF\<rparr>"

definition empty_queue :: ringbuf where
  "empty_queue = \<lparr>rb_capacity = MAX_PKT_BYTES, rb_used = 0, rb_pending = [],
                   rb_committed = [], rb_trace = []\<rparr>"

definition full_queue :: ringbuf where
  "full_queue = empty_queue\<lparr>rb_used := MAX_PKT_BYTES\<rparr>"

section \<open>Byte order\<close>

lemma htons_le16: "bpf_htons (le16 a b) = net16 a b"
  unfolding bpf_htons_def le16_def net16_def
  by (rule bit_word_eqI) (auto simp: bit_simps dest: bit_imp_le_length)

lemma htons_htons: "bpf_htons (bpf_htons x) = x"
  unfolding bpf_htons_def
  by (rule bit_word_eqI) (auto simp: bit_simps dest: bit_imp_le_length)

lemma le16_eq_htons: "le16 a b = bpf_htons c \<longleftrightarrow> net16 a b = c"
  by (metis htons_le16 htons_htons)

lemma bytes32_le32: "bytes32 (le32 a b c d) = [a, b, c, d]"
  unfolding bytes32_def le32_def
  apply simp
  apply (intro conjI bit_word_eqI; auto simp: bit_simps dest: bit_imp_le_length)
  done



lemma unat_net16: "unat (net16 a b) = 256 * unat a + unat b"
proof -
  have "net16 a b = push_bit 8 (ucast a) + ucast b"
    unfolding net16_def
    by (rule disjunctive_add [symmetric]) (auto simp: bit_simps dest: bit_imp_le_length)
  also have "unat \<dots> = (unat a * 256 + unat b) mod 65536"
  proof -
    have "unat a < 256" "unat b < 256"
      using unsigned_less [of a, where ?'a = nat] unsigned_less [of b, where ?'a = nat] by simp_all
    then have "unat (ucast a :: u16) = unat a" "unat (ucast b :: u16) = unat b"
      by (simp_all add: unsigned_ucast_eq take_bit_nat_eq_self)
    then show ?thesis
      by (simp add: unat_word_ariths push_bit_eq_mult mod_simps)
  qed
  also have "\<dots> = unat a * 256 + unat b"
  proof -
    have "unat a < 256" "unat b < 256"
      using unsigned_less [of a, where ?'a = nat] unsigned_less [of b, where ?'a = nat] by simp_all
    then show ?thesis by simp
  qed
  finally show ?thesis by simp
qed

section \<open>The copy loop\<close>

lemma copy_loop_step:
  assumes "pkt + i < length f" "i < MAX_DHCP_PKT_SIZE"
  shows "fst (copy_loop f pkt i d)
           = fst (copy_loop f pkt (i + 1) (d\<lparr>dhcp_pkt := (dhcp_pkt d)[i := f ! (pkt + i)]\<rparr>))"
    and "fst (snd (copy_loop f pkt i d))
           = fst (snd (copy_loop f pkt (i + 1) (d\<lparr>dhcp_pkt := (dhcp_pkt d)[i := f ! (pkt + i)]\<rparr>)))"
    and "snd (snd (copy_loop f pkt i d))
           = snd (snd (copy_loop f pkt (i + 1) (d\<lparr>dhcp_pkt := (dhcp_pkt d)[i := f ! (pkt + i)]\<rparr>))) + 1"
  using assms by (subst copy_loop.simps, simp add: case_prod_beta)+

lemma copy_loop_full:
  assumes "pkt + i < length f" "MAX_DHCP_PKT_SIZE \<le> i"
  shows "copy_loop f pkt i d = (0, d, 1)"
  using assms by (subst copy_loop.simps) simp

lemma copy_loop_end:
  assumes "\<not> pkt + i < length f"
  shows "copy_loop f pkt i d = (1, d, 0)"
  using assms by (subst copy_loop.simps) simp

lemma copy_loop_iters_aux:
  "i \<le> MAX_DHCP_PKT_SIZE \<Longrightarrow> snd (snd (copy_loop f pkt i d)) + i \<le> MAX_DHCP_PKT_SIZE + 1"
proof (induction f pkt i d rule: copy_loop.induct)
  case (1 f pkt i d)
  consider (step) "pkt + i < length f" "i < MAX_DHCP_PKT_SIZE"
    | (full) "pkt + i < length f" "MAX_DHCP_PKT_SIZE \<le> i"
    | (stop) "\<not> pkt + i < length f"
    by linarith
  then show ?case
  proof cases
    case step
    then show ?thesis
      using "1.IH" by (simp add: copy_loop_step)
  next
    case full
    then show ?thesis
      using "1.prems" by (simp add: copy_loop_full)
  next
    case stop
    then show ?thesis
      using "1.prems" by (simp add: copy_loop_end)
  qed
qed

lemma copy_loop_ret:
  "i \<le> MAX_DHCP_PKT_SIZE \<Longrightarrow>
   fst (copy_loop f pkt i d) = (if length f \<le> pkt + MAX_DHCP_PKT_SIZE then 1 else 0)"
proof (induction f pkt i d rule: copy_loop.induct)
  case (1 f pkt i d)
  consider (step) "pkt + i < length f" "i < MAX_DHCP_PKT_SIZE"
    | (full) "pkt + i < length f" "MAX_DHCP_PKT_SIZE \<le> i"
    | (stop) "\<not> pkt + i < length f"
    by linarith
  then show ?case
  proof cases
    case step
    then show ?thesis
      using "1.IH" by (simp add: copy_loop_step)
  next
    case full
    then show ?thesis
      using "1.prems" by (simp add: copy_loop_full)
  next
    case stop
    then show ?thesis
      using "1.prems" by (simp add: copy_loop_end)
  qed
qed

lemma copy_loop_fields:
  "fst (snd (copy_loop f pkt i d)) = d\<lparr>dhcp_pkt := dhcp_pkt (fst (snd (copy_loop f pkt i d)))\<rparr>"
proof (induction f pkt i d rule: copy_loop.induct)
  case (1 f pkt i d)
  consider (step) "pkt + i < length f" "i < MAX_DHCP_PKT_SIZE"
    | (full) "pkt + i < length f" "MAX_DHCP_PKT_SIZE \<le> i"
    | (stop) "\<not> pkt + i < length f"
    by linarith
  then show ?case
  proof cases
    case step
    let ?d1 = "d\<lparr>dhcp_pkt := (dhcp_pkt d)[i := f ! (pkt + i)]\<rparr>"
    have "fst (snd (copy_loop f pkt (i + 1) ?d1))
        = ?d1\<lparr>dhcp_pkt := dhcp_pkt (fst (snd (copy_loop f pkt (i + 1) ?d1)))\<rparr>"
      using step "1.IH" by simp
    then show ?thesis
      unfolding copy_loop_step(2) [OF step] by simp
  next
    case full
    then show ?thesis
      by (simp add: copy_loop_full)
  next
    case stop
    then show ?thesis
      by (simp add: copy_loop_end)
  qed
qed

lemma copy_loop_length:
  "length (dhcp_pkt (fst (snd (copy_loop f pkt i d)))) = length (dhcp_pkt d)"
proof (induction f pkt i d rule: copy_loop.induct)
  case (1 f pkt i d)
  consider (step) "pkt + i < length f" "i < MAX_DHCP_PKT_SIZE"
    | (full) "pkt + i < length f" "MAX_DHCP_PKT_SIZE \<le> i"
    | (stop) "\<not> pkt + i < length f"
    by linarith
  then show ?case
  proof cases
    case step
    then show ?thesis
      using "1.IH" by (simp add: copy_loop_step)
  next
    case full
    then show ?thesis
      by (simp add: copy_loop_full)
  next
    case stop
    then show ?thesis
      by (simp add: copy_loop_end)
  qed
qed

lemma copy_loop_nth:
  "length f \<le> pkt + MAX_DHCP_PKT_SIZE \<Longrightarrow> length (dhcp_pkt d) = MAX_DHCP_PKT_SIZE \<Longrightarrow>
   dhcp_pkt (fst (snd (copy_loop f pkt i d))) ! k =
     (if i \<le> k \<and> pkt + k < length f then f ! (pkt + k) else dhcp_pkt d ! k)"
proof (induction f pkt i d rule: copy_loop.induct)
  case (1 f pkt i d)
  show ?case
  proof (cases "pkt + i < length f")
    case True
    with "1.prems" have lt: "i < MAX_DHCP_PKT_SIZE" "i < length (dhcp_pkt d)" by auto
    let ?d1 = "d\<lparr>dhcp_pkt := (dhcp_pkt d)[i := f ! (pkt + i)]\<rparr>"
    have ih: "dhcp_pkt (fst (snd (copy_loop f pkt (i + 1) ?d1))) ! k =
       (if i + 1 \<le> k \<and> pkt + k < length f then f ! (pkt + k) else dhcp_pkt ?d1 ! k)"
      using "1.IH" True lt "1.prems" by simp
    show ?thesis
      unfolding copy_loop_step(2) [OF True lt(1)] ih using True lt by (auto simp: nth_list_update)
  next
    case False
    then show ?thesis
      by (auto simp: copy_loop_end)
  qed
qed

lemma copy_loop_payload:
  assumes "pkt \<le> length f" "length f \<le> pkt + MAX_DHCP_PKT_SIZE"
    "length (dhcp_pkt d) = MAX_DHCP_PKT_SIZE"
  shows "take (length f - pkt) (dhcp_pkt (fst (snd (copy_loop f pkt 0 d)))) = drop pkt f"
    and "drop (length f - pkt) (dhcp_pkt (fst (snd (copy_loop f pkt 0 d)))) = drop (length f - pkt) (dhcp_pkt d)"
  using assms
  by (auto intro!: nth_equalityI simp: copy_loop_length copy_loop_nth)

section \<open>The parser and the handler, case by case\<close>

lemma h_proto_eq: "h_proto f 0 = bpf_htons c \<longleftrightarrow> ethertype f = c"
  by (simp add: h_proto_def ethertype_def le16_eq_htons)

lemma udp_dest_eq: "udp_dest f u = bpf_htons c \<longleftrightarrow> net16 (f ! (u + 2)) (f ! (u + 3)) = c"
  by (simp add: udp_dest_def le16_eq_htons)

lemmas hdr_consts = sizeof_ethhdr_def sizeof_iphdr_def sizeof_ipv6hdr_def sizeof_udphdr_def
  ETH_PROTO_IP_def ETH_PROTO_IPV6_def DHCP_PORT_def UDP_PROTO_def ip_protocol_def ip6_nexthdr_def

lemma parse4:
  assumes "dhcp4_frame (frame ctx)"
  shows "parse_dhcp_pkt ctx d =
    (fst (copy_loop (frame ctx) 42 0
       (d\<lparr>iface_idx := ingress_ifindex ctx,
           src_mac := (src_mac d)
             [0 := h_source (frame ctx) 0 0, 1 := h_source (frame ctx) 0 1,
              2 := h_source (frame ctx) 0 2, 3 := h_source (frame ctx) 0 3,
              4 := h_source (frame ctx) 0 4, 5 := h_source (frame ctx) 0 5],
           src_ip4 := ip_saddr (frame ctx) 14,
           src_port := bpf_htons (udp_source (frame ctx) 34)\<rparr>)),
     fst (snd (copy_loop (frame ctx) 42 0
       (d\<lparr>iface_idx := ingress_ifindex ctx,
           src_mac := (src_mac d)
             [0 := h_source (frame ctx) 0 0, 1 := h_source (frame ctx) 0 1,
              2 := h_source (frame ctx) 0 2, 3 := h_source (frame ctx) 0 3,
              4 := h_source (frame ctx) 0 4, 5 := h_source (frame ctx) 0 5],
           src_ip4 := ip_saddr (frame ctx) 14,
           src_port := bpf_htons (udp_source (frame ctx) 34)\<rparr>))))"
  using assms
  unfolding parse_dhcp_pkt_def dhcp4_frame_def Let_def
  by (simp add: h_proto_eq udp_dest_eq hdr_consts case_prod_beta)

lemma parse6:
  assumes "dhcp6_frame (frame ctx)"
  shows "parse_dhcp_pkt ctx d =
    (fst (copy_loop (frame ctx) 62 0
       (d\<lparr>iface_idx := ingress_ifindex ctx,
           src_mac := (src_mac d)
             [0 := h_source (frame ctx) 0 0, 1 := h_source (frame ctx) 0 1,
              2 := h_source (frame ctx) 0 2, 3 := h_source (frame ctx) 0 3,
              4 := h_source (frame ctx) 0 4, 5 := h_source (frame ctx) 0 5],
           src_ip6 := ip6_saddr (frame ctx) 14,
           src_port := bpf_htons (udp_source (frame ctx) 54)\<rparr>)),
     fst (snd (copy_loop (frame ctx) 62 0
       (d\<lparr>iface_idx := ingress_ifindex ctx,
           src_mac := (src_mac d)
             [0 := h_source (frame ctx) 0 0, 1 := h_source (frame ctx) 0 1,
              2 := h_source (frame ctx) 0 2, 3 := h_source (frame ctx) 0 3,
              4 := h_source (frame ctx) 0 4, 5 := h_source (frame ctx) 0 5],
           src_ip6 := ip6_saddr (frame ctx) 14,
           src_port := bpf_htons (udp_source (frame ctx) 54)\<rparr>))))"
  using assms
  unfolding parse_dhcp_pkt_def dhcp6_frame_def Let_def
  by (simp add: h_proto_eq udp_dest_eq hdr_consts case_prod_beta)

lemma parse_other:
  assumes "\<not> dhcp4_frame (frame ctx)" "\<not> dhcp6_frame (frame ctx)"
  shows "parse_dhcp_pkt ctx d = (0, d\<lparr>iface_idx := ingress_ifindex ctx\<rparr>)"
  using assms
  unfolding parse_dhcp_pkt_def dhcp4_frame_def dhcp6_frame_def Let_def
  by (auto simp add: h_proto_eq udp_dest_eq hdr_consts)

lemma mac_copy:
  assumes "length m = 6" "12 \<le> length f"
  shows "m[0 := h_source f 0 0, 1 := h_source f 0 1, 2 := h_source f 0 2,
           3 := h_source f 0 3, 4 := h_source f 0 4, 5 := h_source f 0 5] = take 6 (drop 6 f)"
proof (rule nth_equalityI)
  show "length (m[0 := h_source f 0 0, 1 := h_source f 0 1, 2 := h_source f 0 2,
           3 := h_source f 0 3, 4 := h_source f 0 4, 5 := h_source f 0 5]) = length (take 6 (drop 6 f))"
    using assms by simp
next
  fix i
  assume "i < length (m[0 := h_source f 0 0, 1 := h_source f 0 1, 2 := h_source f 0 2,
           3 := h_source f 0 3, 4 := h_source f 0 4, 5 := h_source f 0 5])"
  then have "i < 6" using assms by simp
  then consider "i = 0" | "i = 1" | "i = 2" | "i = 3" | "i = 4" | "i = 5" by linarith
  then show "m[0 := h_source f 0 0, 1 := h_source f 0 1, 2 := h_source f 0 2,
           3 := h_source f 0 3, 4 := h_source f 0 4, 5 := h_source f 0 5] ! i = take 6 (drop 6 f) ! i"
    using assms by cases (simp_all add: h_source_def)
qed

lemma take4_drop:
  assumes "n + 4 \<le> length f"
  shows "take 4 (drop n f) = [f ! n, f ! (n + 1), f ! (n + 2), f ! (n + 3)]"
proof (rule nth_equalityI)
  show "length (take 4 (drop n f)) = length [f ! n, f ! (n + 1), f ! (n + 2), f ! (n + 3)]"
    using assms by simp
next
  fix i
  assume "i < length (take 4 (drop n f))"
  then have "i < 4" by simp
  then consider "i = 0" | "i = 1" | "i = 2" | "i = 3" by linarith
  then show "take 4 (drop n f) ! i = [f ! n, f ! (n + 1), f ! (n + 2), f ! (n + 3)] ! i"
    using assms by cases simp_all
qed

lemma saddr4_bytes:
  "30 \<le> length f \<Longrightarrow> bytes32 (ip_saddr f 14) = take 4 (drop 26 f)"
  by (simp add: ip_saddr_def bytes32_le32 take4_drop)

lemma xdp_no_room:
  assumes "\<not> has_room q"
  shows "xdp_prog_func ctx mem q = (XDP_PASS, q\<lparr>rb_trace := rb_trace q @ [ReserveFailed]\<rparr>)"
  using assms by (simp add: xdp_prog_func_def bpf_ringbuf_reserve_def has_room_def)

lemma xdp_room:
  assumes "has_room q"
  shows "xdp_prog_func ctx mem q =
    (if fst (parse_dhcp_pkt ctx mem) = 0
     then (XDP_PASS, q\<lparr>rb_trace := rb_trace q @ [Reserved, Discarded]\<rparr>)
     else (XDP_DROP, q\<lparr>rb_used := rb_used q + sizeof_dhcp_data,
                         rb_committed := rb_committed q @ [snd (parse_dhcp_pkt ctx mem)],
                         rb_trace := rb_trace q @ [Reserved, Submitted]\<rparr>))"
  using assms
  by (simp add: xdp_prog_func_def bpf_ringbuf_reserve_def has_room_def
      bpf_ringbuf_discard_def bpf_ringbuf_submit_def case_prod_beta)

lemma copy_loop_other_fields:
  "iface_idx (fst (snd (copy_loop f pkt i d))) = iface_idx d"
  "src_mac (fst (snd (copy_loop f pkt i d))) = src_mac d"
  "src_port (fst (snd (copy_loop f pkt i d))) = src_port d"
  "src_ip4 (fst (snd (copy_loop f pkt i d))) = src_ip4 d"
  "src_ip6 (fst (snd (copy_loop f pkt i d))) = src_ip6 d"
  using arg_cong [OF copy_loop_fields, of iface_idx f pkt i d]
    arg_cong [OF copy_loop_fields, of src_mac f pkt i d]
    arg_cong [OF copy_loop_fields, of src_port f pkt i d]
    arg_cong [OF copy_loop_fields, of src_ip4 f pkt i d]
    arg_cong [OF copy_loop_fields, of src_ip6 f pkt i d]
  by simp_all

lemma dhcp_pkt_offset4: "dhcp4_frame f \<Longrightarrow> dhcp_pkt_offset f = 42"
  by (simp add: dhcp4_frame_def dhcp_pkt_offset_def)

lemma dhcp_pkt_offset6: "dhcp6_frame f \<Longrightarrow> dhcp_pkt_offset f = 62"
  by (simp add: dhcp6_frame_def dhcp_pkt_offset_def)

lemma parse_ret:
  "fst (parse_dhcp_pkt ctx d) = (if capturable (frame ctx) then 1 else 0)"
proof -
  consider (v4) "dhcp4_frame (frame ctx)" | (v6) "dhcp6_frame (frame ctx)"
    | (other) "\<not> dhcp4_frame (frame ctx)" "\<not> dhcp6_frame (frame ctx)"
    by blast
  then show ?thesis
  proof cases
    case v4
    then show ?thesis
      by (simp add: parse4 copy_loop_ret capturable_def dhcp_pkt_offset4)
  next
    case v6
    then show ?thesis
      by (simp add: parse6 copy_loop_ret capturable_def dhcp_pkt_offset6)
  next
    case other
    then show ?thesis
      by (simp add: parse_other capturable_def)
  qed
qed

lemma xdp_cases:
  "xdp_prog_func ctx mem q =
    (if has_room q then
       (if capturable (frame ctx)
        then (XDP_DROP, q\<lparr>rb_used := rb_used q + sizeof_dhcp_data,
                         rb_committed := rb_committed q @ [snd (parse_dhcp_pkt ctx mem)],
                         rb_trace := rb_trace q @ [Reserved, Submitted]\<rparr>)
        else (XDP_PASS, q\<lparr>rb_trace := rb_trace q @ [Reserved, Discarded]\<rparr>))
     else (XDP_PASS, q\<lparr>rb_trace := rb_trace q @ [ReserveFailed]\<rparr>))"
  by (simp add: xdp_room xdp_no_room parse_ret)

lemma parse4_record:
  assumes "dhcp4_frame (frame ctx)"
  shows "iface_idx (snd (parse_dhcp_pkt ctx d)) = ingress_ifindex ctx"
    and "src_mac (snd (parse_dhcp_pkt ctx d)) = (src_mac d)
             [0 := h_source (frame ctx) 0 0, 1 := h_source (frame ctx) 0 1,
              2 := h_source (frame ctx) 0 2, 3 := h_source (frame ctx) 0 3,
              4 := h_source (frame ctx) 0 4, 5 := h_source (frame ctx) 0 5]"
    and "src_ip4 (snd (parse_dhcp_pkt ctx d)) = ip_saddr (frame ctx) 14"
    and "src_port (snd (parse_dhcp_pkt ctx d)) = net16 (frame ctx ! 34) (frame ctx ! 35)"
    and "src_ip6 (snd (parse_dhcp_pkt ctx d)) = src_ip6 d"
    and "length (dhcp_pkt (snd (parse_dhcp_pkt ctx d))) = length (dhcp_pkt d)"
  using assms
  by (simp_all add: parse4 copy_loop_other_fields copy_loop_length udp_source_def htons_le16)

lemma parse6_record:
  assumes "dhcp6_frame (frame ctx)"
  shows "iface_idx (snd (parse_dhcp_pkt ctx d)) = ingress_ifindex ctx"
    and "src_mac (snd (parse_dhcp_pkt ctx d)) = (src_mac d)
             [0 := h_source (frame ctx) 0 0, 1 := h_source (frame ctx) 0 1,
              2 := h_source (frame ctx) 0 2, 3 := h_source (frame ctx) 0 3,
              4 := h_source (frame ctx) 0 4, 5 := h_source (frame ctx) 0 5]"
    and "src_ip6 (snd (parse_dhcp_pkt ctx d)) = take 16 (drop 22 (frame ctx))"
    and "src_port (snd (parse_dhcp_pkt ctx d)) = net16 (frame ctx ! 54) (frame ctx ! 55)"
    and "src_ip4 (snd (parse_dhcp_pkt ctx d)) = src_ip4 d"
    and "length (dhcp_pkt (snd (parse_dhcp_pkt ctx d))) = length (dhcp_pkt d)"
  using assms
  by (simp_all add: parse6 copy_loop_other_fields copy_loop_length udp_source_def htons_le16
      ip6_saddr_def)

lemma parse_payload:
  assumes "capturable (frame ctx)" "length (dhcp_pkt d) = MAX_DHCP_PKT_SIZE"
  shows "take (length (frame ctx) - dhcp_pkt_offset (frame ctx)) (dhcp_pkt (snd (parse_dhcp_pkt ctx d)))
           = drop (dhcp_pkt_offset (frame ctx)) (frame ctx)"
proof -
  from assms(1) consider (v4) "dhcp4_frame (frame ctx)" | (v6) "dhcp6_frame (frame ctx)"
    unfolding capturable_def by blast
  then show ?thesis
  proof cases
    case v4
    then have "42 \<le> length (frame ctx)" by (simp add: dhcp4_frame_def)
    moreover have "length (frame ctx) \<le> 42 + MAX_DHCP_PKT_SIZE"
      using assms(1) v4 by (simp add: capturable_def dhcp_pkt_offset4)
    ultimately show ?thesis
      using v4 assms(2) by (simp add: parse4 dhcp_pkt_offset4 copy_loop_payload)
  next
    case v6
    then have "62 \<le> length (frame ctx)" by (simp add: dhcp6_frame_def)
    moreover have "length (frame ctx) \<le> 62 + MAX_DHCP_PKT_SIZE"
      using assms(1) v6 by (simp add: capturable_def dhcp_pkt_offset6)
    ultimately show ?thesis
      using v6 assms(2) by (simp add: parse6 dhcp_pkt_offset6 copy_loop_payload)
  qed
qed


section \<open>Facts about the failure modes and the concrete inputs\<close>

lemma failure_not_capturable:
  assumes "truncated f \<or> wrong_protocol f \<or> wrong_port f \<or> oversized f"
    and "ethertype f = 0x0800 \<longrightarrow> ihl f = 5"
  shows "\<not> capturable f"
  using assms
  unfolding truncated_def wrong_protocol_def wrong_port_def oversized_def capturable_def
    dhcp4_frame_def dhcp6_frame_def udp_hdr_end_def udp_hdr_start_def dhcp_pkt_offset_def
  by auto

lemma other_not_capturable:
  assumes "ethertype f \<noteq> 0x0800" "ethertype f \<noteq> 0x86DD"
  shows "\<not> capturable f"
  using assms by (simp add: capturable_def dhcp4_frame_def dhcp6_frame_def)

lemma drop_fst:
  assumes "fst (xdp_prog_func ctx mem q) = XDP_DROP"
  shows "has_room q" and "capturable (frame ctx)"
    and "snd (xdp_prog_func ctx mem q) =
           q\<lparr>rb_used := rb_used q + sizeof_dhcp_data,
             rb_committed := rb_committed q @ [snd (parse_dhcp_pkt ctx mem)],
             rb_trace := rb_trace q @ [Reserved, Submitted]\<rparr>"
  using assms by (auto simp: xdp_cases split: if_splits)

lemma mk_dhcp4_length: "length (mk_dhcp4 p) = 42 + length p"
  by (simp add: mk_dhcp4_def eth_hdr_def)

lemma mk_dhcp6_length: "length (mk_dhcp6 p) = 62 + length p"
  by (simp add: mk_dhcp6_def eth_hdr_def)

lemma mk_dhcp4_ethertype: "ethertype (mk_dhcp4 p) = 0x0800"
  by (simp add: mk_dhcp4_def eth_hdr_def ethertype_def net16_def)

lemma mk_dhcp6_ethertype: "ethertype (mk_dhcp6 p) = 0x86DD"
  by (simp add: mk_dhcp6_def eth_hdr_def ethertype_def net16_def)

lemma mk_dhcp4_frame: "p \<noteq> [] \<Longrightarrow> dhcp4_frame (mk_dhcp4 p)"
  by (simp add: dhcp4_frame_def mk_dhcp4_length mk_dhcp4_ethertype)
     (simp add: mk_dhcp4_def eth_hdr_def net16_def)

lemma mk_dhcp6_frame: "p \<noteq> [] \<Longrightarrow> dhcp6_frame (mk_dhcp6 p)"
  by (simp add: dhcp6_frame_def mk_dhcp6_length mk_dhcp6_ethertype)
     (simp add: mk_dhcp6_def eth_hdr_def net16_def)

lemma mk_dhcp4_payload: "drop 42 (mk_dhcp4 p) = p"
  by (simp add: mk_dhcp4_def eth_hdr_def)


lemma mk_dhcp4_capturable:
  "p \<noteq> [] \<Longrightarrow> length p \<le> MAX_DHCP_PKT_SIZE \<Longrightarrow> capturable (mk_dhcp4 p)"
  by (simp add: capturable_def mk_dhcp4_frame dhcp_pkt_offset4 mk_dhcp4_length)

lemma mk_dhcp6_capturable:
  "p \<noteq> [] \<Longrightarrow> length p \<le> MAX_DHCP_PKT_SIZE \<Longrightarrow> capturable (mk_dhcp6 p)"
  by (simp add: capturable_def mk_dhcp6_frame dhcp_pkt_offset6 mk_dhcp6_length)

lemma room_empty: "has_room empty_queue"
  by (simp add: has_room_def empty_queue_def sizeof_dhcp_data_def MAX_PKT_BYTES_def
      MAX_DHCP_PKT_SIZE_def)

lemma no_room_full: "\<not> has_room full_queue"
  by (simp add: has_room_def full_queue_def empty_queue_def sizeof_dhcp_data_def)

lemma wf_zero_mem: "wf_dhcp_data zero_mem"
  by (simp add: wf_dhcp_data_def zero_mem_def)

lemma arp_ethertype: "ethertype arp_frame = 0x0806"
  by (simp add: arp_frame_def eth_hdr_def ethertype_def net16_def)

lemma drop_mk4:
  assumes "p \<noteq> []" "length p \<le> MAX_DHCP_PKT_SIZE"
  shows "fst (xdp_prog_func \<lparr>frame = mk_dhcp4 p, ingress_ifindex = i\<rparr> mem empty_queue) = XDP_DROP"
    and "rb_committed (snd (xdp_prog_func \<lparr>frame = mk_dhcp4 p, ingress_ifindex = i\<rparr> mem empty_queue))
           = [snd (parse_dhcp_pkt \<lparr>frame = mk_dhcp4 p, ingress_ifindex = i\<rparr> mem)]"
  using assms by (simp_all add: xdp_cases room_empty mk_dhcp4_capturable) (simp add: empty_queue_def)

lemma drop_mk6:
  assumes "p \<noteq> []" "length p \<le> MAX_DHCP_PKT_SIZE"
  shows "fst (xdp_prog_func \<lparr>frame = mk_dhcp6 p, ingress_ifindex = i\<rparr> mem empty_queue) = XDP_DROP"
    and "rb_committed (snd (xdp_prog_func \<lparr>frame = mk_dhcp6 p, ingress_ifindex = i\<rparr> mem empty_queue))
           = [snd (parse_dhcp_pkt \<lparr>frame = mk_dhcp6 p, ingress_ifindex = i\<rparr> mem)]"
  using assms by (simp_all add: xdp_cases room_empty mk_dhcp6_capturable) (simp add: empty_queue_def)

lemma copy_loop_cong:
  assumes "length f' = length f" "\<And>k. pkt \<le> k \<Longrightarrow> f' ! k = f ! k"
  shows "copy_loop f' pkt i d = copy_loop f pkt i d"
  using assms
proof (induction f pkt i d rule: copy_loop.induct)
  case (1 f pkt i d)
  consider (step) "pkt + i < length f" "i < MAX_DHCP_PKT_SIZE"
    | (full) "pkt + i < length f" "MAX_DHCP_PKT_SIZE \<le> i"
    | (stop) "\<not> pkt + i < length f"
    by linarith
  then show ?case
  proof cases
    case step
    have eq: "f' ! (pkt + i) = f ! (pkt + i)"
      using "1.prems"(2) by simp
    have "copy_loop f' pkt (i + 1) (d\<lparr>dhcp_pkt := (dhcp_pkt d)[i := f ! (pkt + i)]\<rparr>)
        = copy_loop f pkt (i + 1) (d\<lparr>dhcp_pkt := (dhcp_pkt d)[i := f ! (pkt + i)]\<rparr>)"
      using "1.IH" step "1.prems" by simp
    then show ?thesis
      using step "1.prems"(1) eq
      by (subst (1 2) copy_loop.simps) simp
  next
    case full
    then show ?thesis
      using "1.prems"(1) by (simp add: copy_loop_full)
  next
    case stop
    then show ?thesis
      using "1.prems"(1) by (simp add: copy_loop_end)
  qed
qed

lemma parse_ignores_offset_bytes:
  assumes "capturable (frame ctx)"
  shows "capturable ((frame ctx)[dhcp_pkt_offset (frame ctx) - 4 := a, dhcp_pkt_offset (frame ctx) - 3 := b])"
    and "parse_dhcp_pkt (ctx\<lparr>frame := (frame ctx)[dhcp_pkt_offset (frame ctx) - 4 := a,
           dhcp_pkt_offset (frame ctx) - 3 := b]\<rparr>) d = parse_dhcp_pkt ctx d"
proof -
  let ?f = "frame ctx"
  from assms consider (v4) "dhcp4_frame ?f" | (v6) "dhcp6_frame ?f"
    unfolding capturable_def by blast
  then have "capturable (?f[dhcp_pkt_offset ?f - 4 := a, dhcp_pkt_offset ?f - 3 := b])
    \<and> parse_dhcp_pkt (ctx\<lparr>frame := ?f[dhcp_pkt_offset ?f - 4 := a, dhcp_pkt_offset ?f - 3 := b]\<rparr>) d
        = parse_dhcp_pkt ctx d"
  proof cases
    case v4
    let ?g = "?f[38 := a, 39 := b]"
    have ue: "dhcp_pkt_offset ?f = 42" using v4 by (rule dhcp_pkt_offset4)
    have et: "ethertype ?g = ethertype ?f"
      by (simp add: ethertype_def)
    have g4: "dhcp4_frame ?g"
      using v4 by (simp add: dhcp4_frame_def et)
    have cap: "capturable ?g"
      using assms g4 by (simp add: capturable_def dhcp_pkt_offset_def et)
    have loop: "copy_loop ?g 42 0 x = copy_loop ?f 42 0 x" for x
      by (rule copy_loop_cong) simp_all
    have "parse_dhcp_pkt (ctx\<lparr>frame := ?g\<rparr>) d = parse_dhcp_pkt ctx d"
      using g4 v4
      by (simp add: parse4 loop h_source_def ip_saddr_def udp_source_def)
    then show ?thesis
      using cap by (simp add: ue)
  next
    case v6
    let ?g = "?f[58 := a, 59 := b]"
    have ue: "dhcp_pkt_offset ?f = 62" using v6 by (rule dhcp_pkt_offset6)
    have et: "ethertype ?g = ethertype ?f"
      by (simp add: ethertype_def)
    have g6: "dhcp6_frame ?g"
      using v6 by (simp add: dhcp6_frame_def et)
    have cap: "capturable ?g"
      using assms g6 by (simp add: capturable_def dhcp_pkt_offset_def et)
    have loop: "copy_loop ?g 62 0 x = copy_loop ?f 62 0 x" for x
      by (rule copy_loop_cong) simp_all
    have sa: "ip6_saddr ?g 14 = ip6_saddr ?f 14"
      by (simp add: ip6_saddr_def drop_update_swap)
    have "parse_dhcp_pkt (ctx\<lparr>frame := ?g\<rparr>) d = parse_dhcp_pkt ctx d"
      using g6 v6
      by (simp add: parse6 loop h_source_def sa udp_source_def)
    then show ?thesis
      using cap by (simp add: ue)
  qed
  then show "capturable (?f[dhcp_pkt_offset ?f - 4 := a, dhcp_pkt_offset ?f - 3 := b])"
    and "parse_dhcp_pkt (ctx\<lparr>frame := ?f[dhcp_pkt_offset ?f - 4 := a, dhcp_pkt_offset ?f - 3 := b]\<rparr>) d
        = parse_dhcp_pkt ctx d"
    by simp_all
qed






lemma mk_dhcp4_opts_not_capturable: "\<not> capturable (mk_dhcp4_opts p)"
proof -
  have "ethertype (mk_dhcp4_opts p) = 0x0800"
    by (simp add: mk_dhcp4_opts_def eth_hdr_def ethertype_def net16_def)
  moreover have "net16 (mk_dhcp4_opts p ! 36) (mk_dhcp4_opts p ! 37) \<noteq> 67"
    by (simp add: mk_dhcp4_opts_def eth_hdr_def net16_def)
  ultimately show ?thesis
    by (simp add: capturable_def dhcp4_frame_def dhcp6_frame_def)
qed

lemma no_options_offsets:
  assumes "capturable f" and "ethertype f = 0x0800 \<longrightarrow> ihl f = 5"
  shows "udp_hdr_end f = dhcp_pkt_offset f"
  using assms
  by (auto simp: capturable_def dhcp4_frame_def dhcp6_frame_def udp_hdr_end_def
      udp_hdr_start_def dhcp_pkt_offset_def)

lemma drop_empty_queue:
  assumes "capturable f"
  shows "fst (xdp_prog_func \<lparr>frame = f, ingress_ifindex = i\<rparr> mem empty_queue) = XDP_DROP"
    and "rb_committed (snd (xdp_prog_func \<lparr>frame = f, ingress_ifindex = i\<rparr> mem empty_queue))
           = [snd (parse_dhcp_pkt \<lparr>frame = f, ingress_ifindex = i\<rparr> mem)]"
  using assms by (simp_all add: xdp_cases room_empty) (simp add: empty_queue_def)

lemma mk_ip4_fixed:
  "length (mk_ip4 v [a, b, c, d] rest) = 38 + length rest"
  "ethertype (mk_ip4 v opts rest) = 0x0800"
  "mk_ip4 v opts rest ! 14 = v"
  "mk_ip4 v opts rest ! 23 = 17"
  "mk_ip4 v [a, b, c, d] rest ! 36 = c"
  "mk_ip4 v [a, b, c, d] rest ! 37 = d"
  "drop 38 (mk_ip4 v [a, b, c, d] rest) = rest"
  by (simp_all add: mk_ip4_def eth_hdr_def ethertype_def net16_def)

lemma mk_ip4_capturable:
  assumes "4 < length rest" "length rest \<le> 4 + MAX_DHCP_PKT_SIZE"
  shows "capturable (mk_ip4 v [a, b, 0, 67] rest)"
  using assms
  by (simp add: capturable_def dhcp4_frame_def dhcp_pkt_offset_def mk_ip4_fixed)
     (simp add: net16_def)

lemma opts_dhcp_facts:
  "capturable opts_dhcp" "length opts_dhcp = 49" "ihl opts_dhcp = 6"
  "udp_hdr_end opts_dhcp = 46" "dhcp_pkt_offset opts_dhcp = 42"
  "drop 46 opts_dhcp = [1, 2, 3]" "drop 42 opts_dhcp = [0, 0, 0, 0, 1, 2, 3]"
proof -
  show "capturable opts_dhcp"
    unfolding opts_dhcp_def by (rule mk_ip4_capturable) (simp_all add: MAX_DHCP_PKT_SIZE_def)
  show "length opts_dhcp = 49"
    by (simp add: opts_dhcp_def mk_ip4_fixed)
  show i: "ihl opts_dhcp = 6"
    by (simp add: ihl_def opts_dhcp_def mk_ip4_fixed)
  show "udp_hdr_end opts_dhcp = 46"
    by (simp add: udp_hdr_end_def udp_hdr_start_def i) (simp add: opts_dhcp_def mk_ip4_fixed)
  show "dhcp_pkt_offset opts_dhcp = 42"
    by (simp add: dhcp_pkt_offset_def opts_dhcp_def mk_ip4_fixed)
  show "drop 46 opts_dhcp = [1, 2, 3]" "drop 42 opts_dhcp = [0, 0, 0, 0, 1, 2, 3]"
    by (simp_all add: opts_dhcp_def mk_ip4_def eth_hdr_def)
qed

lemma opts_https_facts:
  "capturable opts_https" "ihl opts_https = 6" "udp_hdr_start opts_https = 38"
  "net16 (opts_https ! 40) (opts_https ! 41) = 443" "wrong_port opts_https"
proof -
  show "capturable opts_https"
    unfolding opts_https_def by (rule mk_ip4_capturable) (simp_all add: MAX_DHCP_PKT_SIZE_def)
  show i: "ihl opts_https = 6"
    by (simp add: ihl_def opts_https_def mk_ip4_fixed)
  show s: "udp_hdr_start opts_https = 38"
    by (simp add: udp_hdr_start_def i) (simp add: opts_https_def mk_ip4_fixed)
  show p: "net16 (opts_https ! 40) (opts_https ! 41) = 443"
    by (simp add: opts_https_def mk_ip4_def eth_hdr_def net16_def)
  show "wrong_port opts_https"
    by (simp add: wrong_port_def s p) (simp add: opts_https_def mk_ip4_fixed)
qed

lemma short_ihl15_facts:
  "capturable short_ihl15" "length short_ihl15 = 50" "ihl short_ihl15 = 15"
  "udp_hdr_end short_ihl15 = 82" "truncated short_ihl15"
proof -
  show "capturable short_ihl15"
    unfolding short_ihl15_def by (rule mk_ip4_capturable) (simp_all add: MAX_DHCP_PKT_SIZE_def)
  show l: "length short_ihl15 = 50"
    by (simp add: short_ihl15_def mk_ip4_fixed)
  show i: "ihl short_ihl15 = 15"
    by (simp add: ihl_def short_ihl15_def mk_ip4_fixed)
  show e: "udp_hdr_end short_ihl15 = 82"
    by (simp add: udp_hdr_end_def udp_hdr_start_def i) (simp add: short_ihl15_def mk_ip4_fixed)
  show "truncated short_ihl15"
    by (simp add: truncated_def e l) (simp add: short_ihl15_def mk_ip4_fixed)
qed

lemma mk_dhcp4_ihl: "ihl (mk_dhcp4 p) = 5"
  by (simp add: ihl_def mk_dhcp4_def eth_hdr_def)

lemma failures_pass_without_options:
  assumes "truncated (frame ctx) \<or> wrong_protocol (frame ctx) \<or> wrong_port (frame ctx)
             \<or> oversized (frame ctx) \<or> \<not> has_room q"
    and "ethertype (frame ctx) = 0x0800 \<longrightarrow> ihl (frame ctx) = 5"
  shows "fst (xdp_prog_func ctx mem q) = XDP_PASS
    \<and> rb_committed (snd (xdp_prog_func ctx mem q)) = rb_committed q
    \<and> rb_used (snd (xdp_prog_func ctx mem q)) = rb_used q
    \<and> rb_pending (snd (xdp_prog_func ctx mem q)) = rb_pending q"
proof (cases "has_room q")
  case True
  with assms have "\<not> capturable (frame ctx)"
    using failure_not_capturable by blast
  then show ?thesis
    by (simp add: xdp_cases)
next
  case False
  then show ?thesis
    by (simp add: xdp_cases)
qed

section \<open>The claims\<close>

text \<open>
  C1, as the code has it.  For every frame whose ethertype is neither IPv4 nor IPv6 the
  verdict is \<open>XDP_PASS\<close> and no record is committed; the occupancy of the queue and its
  pending reservations are as before.  The handler reserves a slot before it parses: when
  the reservation succeeds, the slot is reserved and then discarded, and when it fails,
  nothing but the failed attempt happens.
\<close>

theorem other_ethertype_reserve_discard:
  assumes "14 \<le> length (frame ctx)"
    and "ethertype (frame ctx) \<noteq> 0x0800" and "ethertype (frame ctx) \<noteq> 0x86DD"
  shows "fst (xdp_prog_func ctx mem q) = XDP_PASS
    \<and> rb_committed (snd (xdp_prog_func ctx mem q)) = rb_committed q
    \<and> rb_used (snd (xdp_prog_func ctx mem q)) = rb_used q
    \<and> rb_pending (snd (xdp_prog_func ctx mem q)) = rb_pending q
    \<and> rb_trace (snd (xdp_prog_func ctx mem q))
        = rb_trace q @ (if has_room q then [Reserved, Discarded] else [ReserveFailed])"
  using other_not_capturable [OF assms(2,3)] by (simp add: xdp_cases)

theorem other_ethertype_reserve_discard_witness:
  "14 \<le> length (frame \<lparr>frame = arp_frame, ingress_ifindex = 2\<rparr>)
   \<and> ethertype (frame \<lparr>frame = arp_frame, ingress_ifindex = 2\<rparr>) \<noteq> 0x0800
   \<and> ethertype (frame \<lparr>frame = arp_frame, ingress_ifindex = 2\<rparr>) \<noteq> 0x86DD
   \<and> fst (xdp_prog_func \<lparr>frame = arp_frame, ingress_ifindex = 2\<rparr> zero_mem empty_queue) = XDP_PASS
   \<and> rb_committed (snd (xdp_prog_func \<lparr>frame = arp_frame, ingress_ifindex = 2\<rparr> zero_mem empty_queue)) = []
   \<and> rb_trace (snd (xdp_prog_func \<lparr>frame = arp_frame, ingress_ifindex = 2\<rparr> zero_mem empty_queue))
       = [Reserved, Discarded]"
proof -
  have h1: "14 \<le> length (frame \<lparr>frame = arp_frame, ingress_ifindex = 2\<rparr>)"
    by (simp add: arp_frame_def eth_hdr_def)
  have h2: "ethertype (frame \<lparr>frame = arp_frame, ingress_ifindex = 2\<rparr>) \<noteq> 0x0800"
    by (simp add: arp_ethertype)
  have h3: "ethertype (frame \<lparr>frame = arp_frame, ingress_ifindex = 2\<rparr>) \<noteq> 0x86DD"
    by (simp add: arp_ethertype)
  show ?thesis
    using other_ethertype_reserve_discard [OF h1 h2 h3, of zero_mem empty_queue] h1 h2 h3
    by (simp add: room_empty) (simp add: empty_queue_def)
qed

text \<open>
  C1 as stated fails: for an ARP frame and an empty queue the verdict is \<open>XDP_PASS\<close>, yet
  a slot has been reserved and discarded.
\<close>

theorem other_ethertype_touches_queue:
  "ethertype arp_frame = 0x0806
   \<and> fst (xdp_prog_func \<lparr>frame = arp_frame, ingress_ifindex = 2\<rparr> zero_mem empty_queue) = XDP_PASS
   \<and> rb_trace empty_queue = []
   \<and> rb_trace (snd (xdp_prog_func \<lparr>frame = arp_frame, ingress_ifindex = 2\<rparr> zero_mem empty_queue))
       = [Reserved, Discarded]"
proof -
  have "\<not> capturable (frame \<lparr>frame = arp_frame, ingress_ifindex = 2\<rparr>)"
    by (rule other_not_capturable) (simp_all add: arp_ethertype)
  then show ?thesis
    by (simp add: xdp_cases room_empty arp_ethertype) (simp add: empty_queue_def)
qed

text \<open>
  C2, as the code has it.  For every frame made of an Ethernet header with the IPv4
  ethertype, an IPv4 header of 20 bytes (no options) whose protocol is UDP, a UDP header
  whose destination port is 67, and a payload of at least one and at most
  \<open>MAX_DHCP_PKT_SIZE\<close> bytes, provided the reservation succeeds (the queue has room for one
  more record): the verdict is
  \<open>XDP_DROP\<close> and exactly one record is committed, holding the interface index, the six
  bytes of the source MAC, the four bytes of the source IPv4 address as they are in the
  frame, the source port as a number in host byte order, and the payload bytes at the start
  of \<open>dhcp_pkt\<close>.  (\<open>wf_dhcp_data mem\<close> says no more than that the reserved memory has the
  size of the struct.)
\<close>

theorem dhcp4_captured:
  assumes "dhcp4_frame (frame ctx)"
    and "length (frame ctx) \<le> 14 + 20 + 8 + MAX_DHCP_PKT_SIZE"
    and "has_room q"
    and "wf_dhcp_data mem"
  shows "\<exists>r. fst (xdp_prog_func ctx mem q) = XDP_DROP
    \<and> rb_committed (snd (xdp_prog_func ctx mem q)) = rb_committed q @ [r]
    \<and> iface_idx r = ingress_ifindex ctx
    \<and> src_mac r = take 6 (drop 6 (frame ctx))
    \<and> bytes32 (src_ip4 r) = take 4 (drop 26 (frame ctx))
    \<and> unat (src_port r) = 256 * unat (frame ctx ! 34) + unat (frame ctx ! 35)
    \<and> take (length (frame ctx) - 42) (dhcp_pkt r) = drop 42 (frame ctx)"
proof -
  let ?r = "snd (parse_dhcp_pkt ctx mem)"
  have len: "42 < length (frame ctx)"
    using assms(1) by (simp add: dhcp4_frame_def)
  have cap: "capturable (frame ctx)"
    using assms(1,2) by (simp add: capturable_def dhcp_pkt_offset4)
  have "fst (xdp_prog_func ctx mem q) = XDP_DROP"
    and "rb_committed (snd (xdp_prog_func ctx mem q)) = rb_committed q @ [?r]"
    using cap assms(3) by (simp_all add: xdp_cases)
  moreover have "iface_idx ?r = ingress_ifindex ctx"
    using assms(1) by (simp add: parse4_record)
  moreover have "src_mac ?r = take 6 (drop 6 (frame ctx))"
    unfolding parse4_record(2) [OF assms(1)]
    by (rule mac_copy) (use assms(4) len in \<open>simp_all add: wf_dhcp_data_def\<close>)
  moreover have "bytes32 (src_ip4 ?r) = take 4 (drop 26 (frame ctx))"
    using assms(1) len by (simp add: parse4_record saddr4_bytes)
  moreover have "unat (src_port ?r) = 256 * unat (frame ctx ! 34) + unat (frame ctx ! 35)"
    using assms(1) by (simp add: parse4_record unat_net16)
  moreover have "take (length (frame ctx) - 42) (dhcp_pkt ?r) = drop 42 (frame ctx)"
    using parse_payload [OF cap, of mem] assms(1,4) by (simp add: dhcp_pkt_offset4 wf_dhcp_data_def)
  ultimately show ?thesis by blast
qed

theorem dhcp4_captured_witness:
  "dhcp4_frame (frame \<lparr>frame = mk_dhcp4 [1, 2, 3], ingress_ifindex = 2\<rparr>)
   \<and> length (frame \<lparr>frame = mk_dhcp4 [1, 2, 3], ingress_ifindex = 2\<rparr>)
        \<le> 14 + 20 + 8 + MAX_DHCP_PKT_SIZE
   \<and> has_room empty_queue
   \<and> wf_dhcp_data zero_mem
   \<and> (\<exists>r. fst (xdp_prog_func \<lparr>frame = mk_dhcp4 [1, 2, 3], ingress_ifindex = 2\<rparr> zero_mem empty_queue)
            = XDP_DROP
        \<and> rb_committed (snd (xdp_prog_func \<lparr>frame = mk_dhcp4 [1, 2, 3], ingress_ifindex = 2\<rparr>
              zero_mem empty_queue)) = [r]
        \<and> iface_idx r = 2
        \<and> src_mac r = [2, 0, 0, 0, 0, 1]
        \<and> bytes32 (src_ip4 r) = [10, 0, 0, 9]
        \<and> unat (src_port r) = 68
        \<and> take 3 (dhcp_pkt r) = [1, 2, 3])"
proof -
  let ?c = "\<lparr>frame = mk_dhcp4 [1, 2, 3], ingress_ifindex = 2\<rparr>"
  have h1: "dhcp4_frame (frame ?c)"
    by (simp add: mk_dhcp4_frame)
  have h2: "length (frame ?c) \<le> 14 + 20 + 8 + MAX_DHCP_PKT_SIZE"
    by (simp add: mk_dhcp4_length MAX_DHCP_PKT_SIZE_def)
  have e: "rb_committed empty_queue = []"
    by (simp add: empty_queue_def)
  have v: "take 6 (drop 6 (mk_dhcp4 [1, 2, 3])) = [2, 0, 0, 0, 0, 1]"
    "take 4 (drop 26 (mk_dhcp4 [1, 2, 3])) = [10, 0, 0, 9]"
    "mk_dhcp4 [1, 2, 3] ! 34 = 0" "mk_dhcp4 [1, 2, 3] ! 35 = 68"
    by (simp_all add: mk_dhcp4_def eth_hdr_def)
  show ?thesis
    using dhcp4_captured [OF h1 h2 room_empty wf_zero_mem] h1 h2 room_empty wf_zero_mem
    by (simp add: e v mk_dhcp4_length mk_dhcp4_payload)
qed

text \<open>
  C2 as stated fails twice.  The same well-formed frame meets a full queue: the reservation
  fails, the verdict is \<open>XDP_PASS\<close> and nothing is committed.  And a well-formed packet
  whose IPv4 header carries options (24 bytes) meets an empty queue: the UDP header is read at
  the fixed offset 34, inside the options, the port read there is not 67, the verdict is
  \<open>XDP_PASS\<close> and nothing is committed.
\<close>

theorem dhcp4_not_always_captured:
  "dhcp4_frame (mk_dhcp4 [1, 2, 3])
   \<and> length (mk_dhcp4 [1, 2, 3]) \<le> 14 + 20 + 8 + MAX_DHCP_PKT_SIZE
   \<and> fst (xdp_prog_func \<lparr>frame = mk_dhcp4 [1, 2, 3], ingress_ifindex = 2\<rparr> zero_mem full_queue)
        = XDP_PASS
   \<and> rb_committed (snd (xdp_prog_func \<lparr>frame = mk_dhcp4 [1, 2, 3], ingress_ifindex = 2\<rparr>
         zero_mem full_queue)) = []
   \<and> fst (xdp_prog_func \<lparr>frame = mk_dhcp4_opts [1, 2, 3], ingress_ifindex = 2\<rparr> zero_mem empty_queue)
        = XDP_PASS
   \<and> rb_committed (snd (xdp_prog_func \<lparr>frame = mk_dhcp4_opts [1, 2, 3], ingress_ifindex = 2\<rparr>
         zero_mem empty_queue)) = []"
proof -
  have "fst (xdp_prog_func \<lparr>frame = mk_dhcp4 [1, 2, 3], ingress_ifindex = 2\<rparr> zero_mem full_queue)
        = XDP_PASS
    \<and> rb_committed (snd (xdp_prog_func \<lparr>frame = mk_dhcp4 [1, 2, 3], ingress_ifindex = 2\<rparr>
         zero_mem full_queue)) = []"
    by (simp add: xdp_cases no_room_full) (simp add: full_queue_def empty_queue_def)
  moreover have "fst (xdp_prog_func \<lparr>frame = mk_dhcp4_opts [1, 2, 3], ingress_ifindex = 2\<rparr>
         zero_mem empty_queue) = XDP_PASS
    \<and> rb_committed (snd (xdp_prog_func \<lparr>frame = mk_dhcp4_opts [1, 2, 3], ingress_ifindex = 2\<rparr>
         zero_mem empty_queue)) = []"
    by (simp add: xdp_cases room_empty mk_dhcp4_opts_not_capturable) (simp add: empty_queue_def)
  moreover have "dhcp4_frame (mk_dhcp4 [1, 2, 3])"
    by (simp add: mk_dhcp4_frame)
  moreover have "length (mk_dhcp4 [1, 2, 3]) \<le> 14 + 20 + 8 + MAX_DHCP_PKT_SIZE"
    by (simp add: mk_dhcp4_length MAX_DHCP_PKT_SIZE_def)
  ultimately show ?thesis
    by blast
qed

text \<open>
  C3, as the code has it.  For every committed record, exactly one of the two address
  fields is written: on the IPv4 path \<open>src_ip4\<close> holds the source address of the frame and
  \<open>src_ip6\<close> is left as the reserved memory held it; on the IPv6 path \<open>src_ip6\<close> holds the
  source address of the frame and \<open>src_ip4\<close> is left as the reserved memory held it.  The
  field that is not written is zero whenever the reserved memory was.
\<close>

theorem committed_record_address:
  assumes "fst (xdp_prog_func ctx mem q) = XDP_DROP"
  shows "\<exists>r. rb_committed (snd (xdp_prog_func ctx mem q)) = rb_committed q @ [r]
    \<and> (ethertype (frame ctx) = 0x0800
          \<and> bytes32 (src_ip4 r) = take 4 (drop 26 (frame ctx)) \<and> src_ip6 r = src_ip6 mem
        \<or> ethertype (frame ctx) = 0x86DD
          \<and> src_ip6 r = take 16 (drop 22 (frame ctx)) \<and> src_ip4 r = src_ip4 mem)"
proof -
  let ?r = "snd (parse_dhcp_pkt ctx mem)"
  have com: "rb_committed (snd (xdp_prog_func ctx mem q)) = rb_committed q @ [?r]"
    using drop_fst(3) [OF assms] by simp
  from drop_fst(2) [OF assms]
  consider (v4) "dhcp4_frame (frame ctx)" | (v6) "dhcp6_frame (frame ctx)"
    unfolding capturable_def by blast
  then show ?thesis
  proof cases
    case v4
    then have "ethertype (frame ctx) = 0x0800" "30 \<le> length (frame ctx)"
      by (simp_all add: dhcp4_frame_def)
    then show ?thesis
      using com v4 by (simp add: parse4_record saddr4_bytes)
  next
    case v6
    then have "ethertype (frame ctx) = 0x86DD"
      by (simp add: dhcp6_frame_def)
    then show ?thesis
      using com v6 by (simp add: parse6_record)
  qed
qed

theorem committed_record_address_witness:
  "fst (xdp_prog_func \<lparr>frame = mk_dhcp6 [1, 2, 3], ingress_ifindex = 2\<rparr> stale_mem empty_queue) = XDP_DROP
   \<and> (\<exists>r. rb_committed (snd (xdp_prog_func \<lparr>frame = mk_dhcp6 [1, 2, 3], ingress_ifindex = 2\<rparr>
               stale_mem empty_queue)) = [r]
        \<and> src_ip6 r = [0xFE, 0x80, 0, 0, 0, 0, 0, 0, 0, 0, 0, 0, 0, 0, 0, 1]
        \<and> src_ip4 r = 0x0900000A)"
proof -
  let ?c = "\<lparr>frame = mk_dhcp6 [1, 2, 3], ingress_ifindex = 2\<rparr>"
  have h: "fst (xdp_prog_func ?c stale_mem empty_queue) = XDP_DROP"
    by (rule drop_mk6) (simp_all add: MAX_DHCP_PKT_SIZE_def)
  have v: "take 16 (drop 22 (mk_dhcp6 [1, 2, 3])) = [0xFE, 0x80, 0, 0, 0, 0, 0, 0, 0, 0, 0, 0, 0, 0, 0, 1]"
    by (simp add: mk_dhcp6_def eth_hdr_def)
  have e: "rb_committed empty_queue = []" "src_ip4 stale_mem = 0x0900000A"
    by (simp_all add: empty_queue_def stale_mem_def)
  show ?thesis
    using committed_record_address [OF h] h
    by (simp add: mk_dhcp6_ethertype v e)
qed

text \<open>
  C3 as stated fails: on memory that still holds the addresses of an earlier record, the
  record committed on the IPv4 path has a non-zero \<open>src_ip6\<close> and the record committed on
  the IPv6 path a non-zero \<open>src_ip4\<close>.
\<close>

theorem stale_address_committed:
  "fst (xdp_prog_func \<lparr>frame = mk_dhcp4 [1, 2, 3], ingress_ifindex = 2\<rparr> stale_mem empty_queue) = XDP_DROP
   \<and> ethertype (mk_dhcp4 [1, 2, 3]) = 0x0800
   \<and> src_ip6 (last (rb_committed (snd (xdp_prog_func \<lparr>frame = mk_dhcp4 [1, 2, 3], ingress_ifindex = 2\<rparr>
         stale_mem empty_queue)))) \<noteq> replicate 16 0
   \<and> fst (xdp_prog_func \<lparr>frame = mk_dhcp6 [1, 2, 3], ingress_ifindex = 2\<rparr> stale_mem empty_queue) = XDP_DROP
   \<and> ethertype (mk_dhcp6 [1, 2, 3]) = 0x86DD
   \<and> src_ip4 (last (rb_committed (snd (xdp_prog_func \<lparr>frame = mk_dhcp6 [1, 2, 3], ingress_ifindex = 2\<rparr>
         stale_mem empty_queue)))) \<noteq> 0"
proof -
  let ?c4 = "\<lparr>frame = mk_dhcp4 [1, 2, 3], ingress_ifindex = 2\<rparr>"
  let ?c6 = "\<lparr>frame = mk_dhcp6 [1, 2, 3], ingress_ifindex = 2\<rparr>"
  have p: "[1 :: u8, 2, 3] \<noteq> []" "length [1 :: u8, 2, 3] \<le> MAX_DHCP_PKT_SIZE"
    by (simp_all add: MAX_DHCP_PKT_SIZE_def)
  have "src_ip6 (snd (parse_dhcp_pkt ?c4 stale_mem)) = replicate 16 0xFF"
    using mk_dhcp4_frame [OF p(1)] by (simp add: parse4_record) (simp add: stale_mem_def)
  then have "src_ip6 (snd (parse_dhcp_pkt ?c4 stale_mem)) \<noteq> replicate 16 0"
    by simp
  moreover have "src_ip4 (snd (parse_dhcp_pkt ?c6 stale_mem)) \<noteq> 0"
    using mk_dhcp6_frame [OF p(1)] by (simp add: parse6_record) (simp add: stale_mem_def)
  ultimately show ?thesis
    by (simp add: drop_mk4 [OF p] drop_mk6 [OF p] mk_dhcp4_ethertype mk_dhcp6_ethertype)
qed



text \<open>
  C5.  Every failure mode (a header crossing the end of the frame at any stage, a
  transport protocol other than UDP, a destination port other than 67, an oversized payload,
  a reservation that fails) is to yield the verdict \<open>XDP_PASS\<close> with no record committed.
  The code breaks this for IPv4 frames whose header carries options: it takes the IPv4 header
  to be 20 bytes long and never reads its length field, so it looks for the UDP header at
  offset 34, inside the options.  A UDP packet to port 443 whose option bytes read 67 there
  meets an empty queue: the verdict is \<open>XDP_DROP\<close> and a record is committed.  So it is for a
  frame of 50 bytes whose IPv4 header announces 60 bytes and so crosses the end of the frame.
  (For frames without IPv4 options the claim holds, by \<open>failures_pass_without_options\<close>.)
\<close>

theorem options_frames_dropped:
  "ihl opts_https = 6
   \<and> net16 (opts_https ! (udp_hdr_start opts_https + 2)) (opts_https ! (udp_hdr_start opts_https + 3)) = 443
   \<and> wrong_port opts_https
   \<and> has_room empty_queue
   \<and> fst (xdp_prog_func \<lparr>frame = opts_https, ingress_ifindex = 2\<rparr> zero_mem empty_queue) = XDP_DROP
   \<and> length (rb_committed (snd (xdp_prog_func \<lparr>frame = opts_https, ingress_ifindex = 2\<rparr>
        zero_mem empty_queue))) = 1
   \<and> rb_committed empty_queue = []
   \<and> ihl short_ihl15 = 15
   \<and> length short_ihl15 = 50
   \<and> truncated short_ihl15
   \<and> fst (xdp_prog_func \<lparr>frame = short_ihl15, ingress_ifindex = 2\<rparr> zero_mem empty_queue) = XDP_DROP
   \<and> length (rb_committed (snd (xdp_prog_func \<lparr>frame = short_ihl15, ingress_ifindex = 2\<rparr>
        zero_mem empty_queue))) = 1"
  by (simp add: opts_https_facts short_ihl15_facts room_empty drop_empty_queue)
     (simp add: empty_queue_def)

text \<open>
  C6.  For every frame the classifier terminates, and each payload copy loop enters its body
  at most \<open>MAX_DHCP_PKT_SIZE + 1\<close> times, whatever the frame holds and however long it is.
  (Termination itself is the totality of \<open>copy_loop\<close>, shown where it is defined; every
  other step of \<open>parse_dhcp_pkt\<close> and \<open>xdp_prog_func\<close> is straight-line code.)
\<close>

theorem copy_loop_bounded:
  "snd (snd (copy_loop f pkt 0 d)) \<le> MAX_DHCP_PKT_SIZE + 1"
  using copy_loop_iters_aux [of 0 f pkt d] by simp




text \<open>
  C8.  For every frame the handler makes at most one reservation, and a successful
  reservation is released exactly once before the handler returns, by one submit or by one
  discard: the helper calls of one invocation are a failed reservation alone, or a
  reservation followed by one discard, or a reservation followed by one submit, and the
  reservations pending afterwards are those pending before.
\<close>

theorem reservation_released_once:
  "rb_pending (snd (xdp_prog_func ctx mem q)) = rb_pending q
   \<and> (rb_trace (snd (xdp_prog_func ctx mem q)) = rb_trace q @ [ReserveFailed]
      \<or> rb_trace (snd (xdp_prog_func ctx mem q)) = rb_trace q @ [Reserved, Discarded]
      \<or> rb_trace (snd (xdp_prog_func ctx mem q)) = rb_trace q @ [Reserved, Submitted])"
  by (simp add: xdp_cases)

text \<open>
  C9, as the code has it.  For every committed record whose frame is an IPv6 frame or an
  IPv4 frame with a header of 20 bytes (no options), the captured payload is every byte from
  the end of the UDP header to the end of the frame.  The length field of the UDP header
  (the two bytes at offset 4 of that header) is never consulted: whatever it holds, the
  handler does the same, so bytes of the frame beyond the UDP datagram are part of the
  capture.
\<close>

theorem payload_to_frame_end:
  assumes "fst (xdp_prog_func ctx mem q) = XDP_DROP"
    and "wf_dhcp_data mem"
    and "ethertype (frame ctx) = 0x0800 \<longrightarrow> ihl (frame ctx) = 5"
  shows "\<exists>r. rb_committed (snd (xdp_prog_func ctx mem q)) = rb_committed q @ [r]
    \<and> take (length (frame ctx) - udp_hdr_end (frame ctx)) (dhcp_pkt r)
        = drop (udp_hdr_end (frame ctx)) (frame ctx)
    \<and> xdp_prog_func (ctx\<lparr>frame := (frame ctx)[udp_hdr_end (frame ctx) - 4 := a,
          udp_hdr_end (frame ctx) - 3 := b]\<rparr>) mem q = xdp_prog_func ctx mem q"
proof -
  let ?r = "snd (parse_dhcp_pkt ctx mem)"
  note d = drop_fst [OF assms(1)]
  have off: "udp_hdr_end (frame ctx) = dhcp_pkt_offset (frame ctx)"
    using d(2) assms(3) by (rule no_options_offsets)
  have "rb_committed (snd (xdp_prog_func ctx mem q)) = rb_committed q @ [?r]"
    using d(3) by simp
  moreover have "take (length (frame ctx) - udp_hdr_end (frame ctx)) (dhcp_pkt ?r)
        = drop (udp_hdr_end (frame ctx)) (frame ctx)"
    unfolding off using parse_payload [OF d(2)] assms(2) by (simp add: wf_dhcp_data_def)
  moreover have "xdp_prog_func (ctx\<lparr>frame := (frame ctx)[udp_hdr_end (frame ctx) - 4 := a,
          udp_hdr_end (frame ctx) - 3 := b]\<rparr>) mem q = xdp_prog_func ctx mem q"
    unfolding off
    using parse_ignores_offset_bytes(1) [OF d(2), of a b]
      parse_ignores_offset_bytes(2) [OF d(2), of a b mem] d(1,2)
    by (simp add: xdp_cases)
  ultimately show ?thesis by blast
qed

theorem payload_to_frame_end_witness:
  "fst (xdp_prog_func \<lparr>frame = mk_dhcp4 [1, 2, 3], ingress_ifindex = 2\<rparr> zero_mem empty_queue) = XDP_DROP
   \<and> wf_dhcp_data zero_mem
   \<and> ethertype (frame \<lparr>frame = mk_dhcp4 [1, 2, 3], ingress_ifindex = 2\<rparr>) = 0x0800
   \<and> ihl (frame \<lparr>frame = mk_dhcp4 [1, 2, 3], ingress_ifindex = 2\<rparr>) = 5
   \<and> udp_hdr_end (mk_dhcp4 [1, 2, 3]) = 42
   \<and> (\<exists>r. rb_committed (snd (xdp_prog_func \<lparr>frame = mk_dhcp4 [1, 2, 3], ingress_ifindex = 2\<rparr>
              zero_mem empty_queue)) = [r]
        \<and> take 3 (dhcp_pkt r) = [1, 2, 3]
        \<and> xdp_prog_func \<lparr>frame = (mk_dhcp4 [1, 2, 3])[38 := 0xAB, 39 := 0xCD], ingress_ifindex = 2\<rparr>
              zero_mem empty_queue
            = xdp_prog_func \<lparr>frame = mk_dhcp4 [1, 2, 3], ingress_ifindex = 2\<rparr> zero_mem empty_queue)"
proof -
  let ?c = "\<lparr>frame = mk_dhcp4 [1, 2, 3], ingress_ifindex = 2\<rparr>"
  have h: "fst (xdp_prog_func ?c zero_mem empty_queue) = XDP_DROP"
    by (rule drop_mk4) (simp_all add: MAX_DHCP_PKT_SIZE_def)
  have i: "ethertype (frame ?c) = 0x0800 \<longrightarrow> ihl (frame ?c) = 5"
    by (simp add: mk_dhcp4_ihl)
  have e: "rb_committed empty_queue = []"
    by (simp add: empty_queue_def)
  have u: "udp_hdr_end (mk_dhcp4 [1, 2, 3]) = 42"
    by (simp add: udp_hdr_end_def udp_hdr_start_def mk_dhcp4_ethertype mk_dhcp4_ihl)
  show ?thesis
    using payload_to_frame_end [OF h wf_zero_mem i, of "0xAB" "0xCD"] h wf_zero_mem
    by (simp add: e u mk_dhcp4_length mk_dhcp4_payload mk_dhcp4_ihl mk_dhcp4_ethertype)
qed

text \<open>
  C9 as stated fails for a record committed from an IPv4 frame with options.  The frame
  is a DHCP packet whose IPv4 header has 24 bytes; its UDP header ends at offset 46 and its
  payload is 1, 2, 3.  The parser copies from offset 42, so the capture begins with the last
  four bytes of the UDP header.
\<close>

theorem options_capture_inside_udp_header:
  "fst (xdp_prog_func \<lparr>frame = opts_dhcp, ingress_ifindex = 2\<rparr> zero_mem empty_queue) = XDP_DROP
   \<and> ihl opts_dhcp = 6
   \<and> udp_hdr_end opts_dhcp = 46
   \<and> drop (udp_hdr_end opts_dhcp) opts_dhcp = [1, 2, 3]
   \<and> take 7 (dhcp_pkt (last (rb_committed (snd (xdp_prog_func
         \<lparr>frame = opts_dhcp, ingress_ifindex = 2\<rparr> zero_mem empty_queue))))) = [0, 0, 0, 0, 1, 2, 3]
   \<and> take (length opts_dhcp - udp_hdr_end opts_dhcp) (dhcp_pkt (last (rb_committed (snd
         (xdp_prog_func \<lparr>frame = opts_dhcp, ingress_ifindex = 2\<rparr> zero_mem empty_queue)))))
       \<noteq> drop (udp_hdr_end opts_dhcp) opts_dhcp"
proof -
  let ?c = "\<lparr>frame = opts_dhcp, ingress_ifindex = 2\<rparr>"
  let ?r = "snd (parse_dhcp_pkt ?c zero_mem)"
  have cap: "capturable (frame ?c)"
    by (simp add: opts_dhcp_facts)
  have seven: "take 7 (dhcp_pkt ?r) = [0, 0, 0, 0, 1, 2, 3]"
    using parse_payload [OF cap, of zero_mem] wf_zero_mem
    by (simp add: opts_dhcp_facts wf_dhcp_data_def)
  have "take 3 (take 7 (dhcp_pkt ?r)) = [0, 0, 0]"
    unfolding seven by simp
  then have three: "take 3 (dhcp_pkt ?r) \<noteq> [1, 2, 3]"
    by simp
  show ?thesis
    using seven three
    by (simp add: opts_dhcp_facts drop_empty_queue)
qed

text \<open>
  C10.  For all arguments, the overriding \<open>setgroups\<close> and \<open>initgroups\<close> ignore their
  arguments and return the result of the underlying \<open>setgroups\<close> called with \<open>(0, NULL)\<close>;
  the result does not depend on \<open>size\<close>, \<open>list\<close>, \<open>user\<close> or \<open>group\<close>.
\<close>

theorem shim_clears_groups:
  "setgroups orig_setgroups sz lst = orig_setgroups 0 None
   \<and> initgroups orig_setgroups user grp = orig_setgroups 0 None
   \<and> setgroups orig_setgroups sz lst = setgroups orig_setgroups sz' lst'
   \<and> initgroups orig_setgroups user grp = initgroups orig_setgroups user' grp'"
  by (simp add: setgroups_def initgroups_def)

end
